theory Spec2Isabelle
  imports Complex_Main "HOL-Library.Sublist" "HOL-Library.Multiset"
begin

section \<open>Data model\<close>

text \<open>
  One row of the energy table (a row of the pandas DataFrame of \<^verbatim>\<open>energy_app.py\<close>).
  The \<^verbatim>\<open>year\<close> column holds the first day of a calendar year
  (\<^verbatim>\<open>pd.to_datetime(..., format='%Y')\<close>), so it is modelled by the calendar year itself:
  comparing two such dates and comparing their \<^verbatim>\<open>.dt.year\<close> agree.
  Floating-point numbers are idealised as reals.

  The code reads every per-source column behind \<^verbatim>\<open>if col in df.columns\<close>, and pandas'
  \<^verbatim>\<open>sum\<close> skips missing cells. A per-source cell is therefore a \<open>real option\<close>:
  \<open>None\<close> stands for a cell of an absent column or a missing (NaN) cell.
  \<^verbatim>\<open>total_renewable\<close> is the derived column that the renewable-growth chart adds to its
  working copy; a loaded table does not have it.
\<close>

record energy_record =
  country :: string
  year :: int
  primary_energy_consumption :: real
  coal_consumption :: "real option"
  gas_consumption :: "real option"
  oil_consumption :: "real option"
  nuclear_consumption :: "real option"
  hydro_consumption :: "real option"
  wind_consumption :: "real option"
  solar_consumption :: "real option"
  other_renewable_consumption :: "real option"
  electricity_generation :: "real option"
  gdp :: "real option"
  population :: "real option"
  total_renewable :: "real option"

type_synonym table = "energy_record list"

type_synonym column = "energy_record \<Rightarrow> real option"

text \<open>\<^verbatim>\<open>df[col].sum()\<close> guarded by \<^verbatim>\<open>if col in df.columns\<close>: missing cells add nothing.\<close>

definition cell :: "real option \<Rightarrow> real" where
  "cell v = (case v of None \<Rightarrow> 0 | Some x \<Rightarrow> x)"

definition col_sum :: "column \<Rightarrow> table \<Rightarrow> real" where
  "col_sum col df = sum_list (map (\<lambda>r. cell (col r)) df)"

definition renewable_cols :: "column list" where
  "renewable_cols =
     [hydro_consumption, wind_consumption, solar_consumption, other_renewable_consumption]"

definition fossil_cols :: "column list" where
  "fossil_cols = [coal_consumption, gas_consumption, oil_consumption]"

definition source_cols :: "column list" where
  "source_cols =
     [coal_consumption, gas_consumption, oil_consumption, nuclear_consumption,
      hydro_consumption, wind_consumption, solar_consumption, other_renewable_consumption]"

text \<open>The invariant of the data model: every consumption quantity of a row is non-negative.\<close>

definition row_nonneg :: "energy_record \<Rightarrow> bool" where
  "row_nonneg r \<longleftrightarrow>
     0 \<le> primary_energy_consumption r \<and> list_all (\<lambda>col. 0 \<le> cell (col r)) source_cols"

section \<open>Metrics calculator\<close>

record energy_metrics =
  total_consumption :: real
  avg_consumption :: "real option"
  renewable_percentage :: real
  countries_count :: nat

text \<open>\<^verbatim>\<open>df['year'].max()\<close>; on an empty column pandas yields a missing value.\<close>

definition latest_year :: "table \<Rightarrow> int option" where
  "latest_year df = (if df = [] then None else Some (Max (set (map year df))))"

text \<open>\<^verbatim>\<open>df[df['year'] == latest_year]\<close>; a missing value equals nothing.\<close>

definition latest_data :: "table \<Rightarrow> table" where
  "latest_data df =
     (case latest_year df of None \<Rightarrow> [] | Some y \<Rightarrow> filter (\<lambda>r. year r = y) df)"

text \<open>The loop \<^verbatim>\<open>for col in cols: total += latest_data[col].sum()\<close>, started at 0.\<close>

definition cols_total :: "column list \<Rightarrow> table \<Rightarrow> real" where
  "cols_total cols df = foldl (\<lambda>acc col. acc + col_sum col df) 0 cols"

text \<open>pandas' \<^verbatim>\<open>mean\<close> of an empty column is a missing value.\<close>

definition mean_primary :: "table \<Rightarrow> real option" where
  "mean_primary df =
     (if df = [] then None
      else Some (sum_list (map primary_energy_consumption df) / real (length df)))"

text \<open>The body of \<^verbatim>\<open>calculate_energy_metrics\<close> once \<^verbatim>\<open>latest_data\<close> is at hand.\<close>

definition metrics_of :: "table \<Rightarrow> energy_metrics" where
  "metrics_of latest =
     (let total = sum_list (map primary_energy_consumption latest);
          avg = mean_primary latest;
          renewable_total = cols_total renewable_cols latest;
          fossil_total = cols_total fossil_cols latest;
          pct = (if renewable_total + fossil_total > 0
                 then (renewable_total / (renewable_total + fossil_total)) * 100 else 0)
      in \<lparr> total_consumption = total, avg_consumption = avg,
           renewable_percentage = pct, countries_count = length latest \<rparr>)"

definition calculate_energy_metrics :: "table \<Rightarrow> energy_metrics" where
  "calculate_energy_metrics df = metrics_of (latest_data df)"

text \<open>
  The totals as the specification words them: per latest-year row, the renewable
  (respectively fossil) sources added up, then summed over the rows.
\<close>

definition row_renewable :: "energy_record \<Rightarrow> real" where
  "row_renewable r =
     cell (hydro_consumption r) + cell (wind_consumption r) + cell (solar_consumption r)
       + cell (other_renewable_consumption r)"

definition row_fossil :: "energy_record \<Rightarrow> real" where
  "row_fossil r =
     cell (coal_consumption r) + cell (gas_consumption r) + cell (oil_consumption r)"

definition spec_renewable_total :: "table \<Rightarrow> real" where
  "spec_renewable_total df = (\<Sum>r\<leftarrow>latest_data df. row_renewable r)"

definition spec_fossil_total :: "table \<Rightarrow> real" where
  "spec_fossil_total df = (\<Sum>r\<leftarrow>latest_data df. row_fossil r)"

section \<open>Filter and derivation functions\<close>

text \<open>\<^verbatim>\<open>create_consumption_trends\<close>: the rows handed to the line chart.\<close>

definition create_consumption_trends :: "table \<Rightarrow> string list \<Rightarrow> table" where
  "create_consumption_trends df selected = filter (\<lambda>r. country r \<in> set selected) df"

text \<open>
  \<^verbatim>\<open>create_energy_mix_chart\<close>: the names and values handed to the pie chart, in the
  order of the dictionary, or \<open>None\<close>. \<^verbatim>\<open>.iloc[0]\<close> reads the first matching row; a
  missing cell fails the test \<^verbatim>\<open>v > 0\<close> just as \<open>0\<close> does.
\<close>

definition mix_rows :: "table \<Rightarrow> string \<Rightarrow> int \<Rightarrow> table" where
  "mix_rows df selected_country selected_year =
     filter (\<lambda>r. country r = selected_country \<and> year r = selected_year) df"

definition energy_sources :: "energy_record \<Rightarrow> (string \<times> real) list" where
  "energy_sources r =
     [(''Coal'', cell (coal_consumption r)),
      (''Natural Gas'', cell (gas_consumption r)),
      (''Oil'', cell (oil_consumption r)),
      (''Nuclear'', cell (nuclear_consumption r)),
      (''Hydro'', cell (hydro_consumption r)),
      (''Wind'', cell (wind_consumption r)),
      (''Solar'', cell (solar_consumption r)),
      (''Other Renewables'', cell (other_renewable_consumption r))]"

definition create_energy_mix_chart ::
  "table \<Rightarrow> string \<Rightarrow> int \<Rightarrow> (string \<times> real) list option" where
  "create_energy_mix_chart df selected_country selected_year =
     (case mix_rows df selected_country selected_year of
        [] \<Rightarrow> None
      | r # _ \<Rightarrow>
          (let kept = filter (\<lambda>(k, v). v > 0) (energy_sources r)
           in if kept = [] then None else Some kept))"

text \<open>
  pandas' \<^verbatim>\<open>nlargest(n, col)\<close> with its default \<^verbatim>\<open>keep='first'\<close>: the first \<open>n\<close> rows
  in descending order of the column, rows with equal values in their original order.
\<close>

definition nlargest :: "nat \<Rightarrow> (energy_record \<Rightarrow> real) \<Rightarrow> table \<Rightarrow> table" where
  "nlargest n col df = take n (sort_key (\<lambda>r. - col r) df)"

definition year_rows :: "table \<Rightarrow> int \<Rightarrow> table" where
  "year_rows df y = filter (\<lambda>r. year r = y) df"

text \<open>\<^verbatim>\<open>create_top_consumers_chart(df, year, top_n=10)\<close>; \<open>None\<close> is the omitted argument.\<close>

definition create_top_consumers_chart :: "table \<Rightarrow> int \<Rightarrow> nat option \<Rightarrow> table" where
  "create_top_consumers_chart df y top_n =
     nlargest (case top_n of None \<Rightarrow> 10 | Some n \<Rightarrow> n) primary_energy_consumption
       (year_rows df y)"

text \<open>
  \<^verbatim>\<open>create_renewable_growth_chart\<close>: the column starts at 0 and each renewable column is
  added in turn, missing cells as 0.
\<close>

definition add_renewable :: "column \<Rightarrow> energy_record \<Rightarrow> energy_record" where
  "add_renewable col r = r\<lparr>total_renewable := Some (cell (total_renewable r) + cell (col r))\<rparr>"

definition create_renewable_growth_chart :: "table \<Rightarrow> string list \<Rightarrow> table" where
  "create_renewable_growth_chart df selected =
     (let filtered_df = filter (\<lambda>r. country r \<in> set selected) df;
          filtered_df = map (\<lambda>r. r\<lparr>total_renewable := Some 0\<rparr>) filtered_df
      in foldl (\<lambda>fdf col. map (add_renewable col) fdf) filtered_df renewable_cols)"

section \<open>Insights: per-country growth rate\<close>

text \<open>The selection of \<^verbatim>\<open>main\<close>: chosen countries, and years within the inclusive range.\<close>

definition filter_selection :: "table \<Rightarrow> string list \<Rightarrow> int \<times> int \<Rightarrow> table" where
  "filter_selection df selected year_range =
     filter (\<lambda>r. country r \<in> set selected
                  \<and> fst year_range \<le> year r \<and> year r \<le> snd year_range) df"

text \<open>\<^verbatim>\<open>filtered_df[filtered_df['country'] == country].sort_values('year')\<close>.\<close>

definition country_rows :: "table \<Rightarrow> string \<Rightarrow> table" where
  "country_rows filtered_df c = sort_key year (filter (\<lambda>r. country r = c) filtered_df)"

text \<open>
  The consumption values read from a row are numpy floats. For these, \<^verbatim>\<open>x ** y\<close> with
  a negative \<open>x\<close> and a fractional \<open>y\<close> is not a number (NaN), arithmetic on NaN gives
  NaN, and every comparison with NaN is false. The exponent here is \<open>1 / n\<close> with
  \<open>n \<ge> 2\<close> rows, hence fractional; on a base that is not negative the power is the real
  power \<open>powr\<close>.
\<close>

datatype py_float = Num real | NaN

definition float_root :: "real \<Rightarrow> nat \<Rightarrow> py_float" where
  "float_root x n = (if x < 0 then NaN else Num (x powr (1 / real n)))"

definition percent_growth :: "py_float \<Rightarrow> py_float" where
  "percent_growth p = (case p of NaN \<Rightarrow> NaN | Num v \<Rightarrow> Num ((v - 1) * 100))"

fun float_gt :: "py_float \<Rightarrow> py_float \<Rightarrow> bool" where
  "float_gt (Num x) (Num y) = (x > y)"
| "float_gt _ _ = False"

text \<open>
  The growth rate of one country, \<open>None\<close> when the loop appends nothing for it. Only
  \<^verbatim>\<open>first_year > 0\<close> is tested before the power is taken.
\<close>

definition country_growth :: "table \<Rightarrow> string \<Rightarrow> py_float option" where
  "country_growth filtered_df c =
     (let country_data = country_rows filtered_df c
      in if 2 \<le> length country_data then
           (let first_year = primary_energy_consumption (hd country_data);
                last_year = primary_energy_consumption (last country_data)
            in if first_year > 0
               then Some (percent_growth
                            (float_root (last_year / first_year) (length country_data)))
               else None)
         else None)"

fun growth_rates :: "table \<Rightarrow> string list \<Rightarrow> (string \<times> py_float) list" where
  "growth_rates filtered_df [] = []"
| "growth_rates filtered_df (c # cs) =
     (case country_growth filtered_df c of
        None \<Rightarrow> growth_rates filtered_df cs
      | Some g \<Rightarrow> (c, g) # growth_rates filtered_df cs)"

text \<open>Python's \<^verbatim>\<open>max(xs, key=lambda x: x[1])\<close>: a later item wins only by a greater key.\<close>

fun max_by_rate ::
  "string \<times> py_float \<Rightarrow> (string \<times> py_float) list \<Rightarrow> string \<times> py_float" where
  "max_by_rate best [] = best"
| "max_by_rate best (x # xs) =
     max_by_rate (if float_gt (snd x) (snd best) then x else best) xs"

definition fastest_growing :: "table \<Rightarrow> string list \<Rightarrow> (string \<times> py_float) option" where
  "fastest_growing filtered_df selected =
     (case growth_rates filtered_df selected of
        [] \<Rightarrow> None
      | g # gs \<Rightarrow> Some (max_by_rate g gs))"

section \<open>Synthetic data generator\<close>

text \<open>
  numpy's global generator is outside the repository: it is a parameter, given by the
  state that \<^verbatim>\<open>np.random.seed\<close> installs and by the step that draws one number of the
  unit interval. \<^verbatim>\<open>np.random.uniform(lo, hi)\<close> scales that draw.
\<close>

record 's rng =
  seed_rng :: "nat \<Rightarrow> 's"
  random_sample :: "'s \<Rightarrow> real \<times> 's"

definition uniform :: "'s rng \<Rightarrow> real \<Rightarrow> real \<Rightarrow> 's \<Rightarrow> real \<times> 's" where
  "uniform g lo hi s = (let (u, s') = random_sample g s in (lo + (hi - lo) * u, s'))"

definition countries :: "string list" where
  "countries = [''United States'', ''China'', ''India'', ''Germany'', ''Japan'',
                ''United Kingdom'', ''France'', ''Brazil'', ''Canada'', ''Russia'']"

definition years :: "int list" where
  "years = [2000..2022]"

text \<open>One pass of the inner loop: twelve draws, in the order the code makes them.\<close>

definition sample_row ::
  "'s rng \<Rightarrow> string \<Rightarrow> real \<Rightarrow> real \<Rightarrow> nat \<Rightarrow> int \<Rightarrow> 's \<Rightarrow> energy_record \<times> 's" where
  "sample_row g c base_consumption growth_rate i y s0 =
     (let (u0, s1) = uniform g 0.9 1.1 s0;
          consumption = base_consumption * (1 + growth_rate) ^ i * u0;
          (u1, s2) = uniform g 0.8 1.2 s1;
          (u2, s3) = uniform g 0.8 1.2 s2;
          (u3, s4) = uniform g 0.8 1.2 s3;
          (u4, s5) = uniform g 0.5 1.5 s4;
          (u5, s6) = uniform g 0.5 2.0 s5;
          (u6, s7) = uniform g 0 3.0 s6;
          (u7, s8) = uniform g 0 4.0 s7;
          (u8, s9) = uniform g 0.5 2.0 s8;
          (u9, s10) = uniform g 0.9 1.1 s9;
          (u10, s11) = uniform g 20 100 s10;
          (u11, s12) = uniform g 1000000 1000000000 s11
      in (\<lparr> country = c, year = y,
            primary_energy_consumption = max consumption 0,
            coal_consumption = Some (max (consumption * 0.3 * u1) 0),
            gas_consumption = Some (max (consumption * 0.25 * u2) 0),
            oil_consumption = Some (max (consumption * 0.3 * u3) 0),
            nuclear_consumption = Some (max (consumption * 0.1 * u4) 0),
            hydro_consumption = Some (max (consumption * 0.05 * u5) 0),
            wind_consumption = Some (max (consumption * 0.03 * u6) 0),
            solar_consumption = Some (max (consumption * 0.02 * u7) 0),
            other_renewable_consumption = Some (max (consumption * 0.02 * u8) 0),
            electricity_generation = Some (max (consumption * 0.4 * u9) 0),
            gdp = Some (consumption * u10),
            population = Some u11,
            total_renewable = None \<rparr>, s12))"

fun sample_years ::
  "'s rng \<Rightarrow> string \<Rightarrow> real \<Rightarrow> real \<Rightarrow> (nat \<times> int) list \<Rightarrow> 's \<Rightarrow> table \<times> 's" where
  "sample_years g c base_consumption growth_rate [] s = ([], s)"
| "sample_years g c base_consumption growth_rate ((i, y) # iys) s =
     (let (r, s') = sample_row g c base_consumption growth_rate i y s;
          (rs, s'') = sample_years g c base_consumption growth_rate iys s'
      in (r # rs, s''))"

fun sample_countries :: "'s rng \<Rightarrow> string list \<Rightarrow> 's \<Rightarrow> table \<times> 's" where
  "sample_countries g [] s = ([], s)"
| "sample_countries g (c # cs) s =
     (let (base_consumption, s1) = uniform g 50 500 s;
          (growth_rate, s2) = uniform g (- 0.02) 0.05 s1;
          (rows, s3) = sample_years g c base_consumption growth_rate (enumerate 0 years) s2;
          (rest, s4) = sample_countries g cs s3
      in (rows @ rest, s4))"

text \<open>
  \<^verbatim>\<open>create_sample_data\<close> runs in the global generator state \<open>s\<close> it finds and leaves the
  state it ends in; \<^verbatim>\<open>np.random.seed(42)\<close> replaces the state found.
\<close>

definition create_sample_data :: "'s rng \<Rightarrow> 's \<Rightarrow> table \<times> 's" where
  "create_sample_data g s = sample_countries g countries (seed_rng g 42)"

section \<open>Loading and the main page\<close>

text \<open>
  What the \<^verbatim>\<open>try\<close> block of \<^verbatim>\<open>load_energy_data\<close> ends in: the cleaned table, a
  \<^verbatim>\<open>FileNotFoundError\<close>, or any other exception with its text (a malformed file).
\<close>

datatype read_outcome = Loaded table | FileNotFoundError | OtherException string

datatype ui_message = Error string | Markdown string | Info string | Warning string

definition load_energy_data :: "read_outcome \<Rightarrow> ui_message list \<times> table option" where
  "load_energy_data outcome =
     (case outcome of
        Loaded df \<Rightarrow> ([], Some df)
      | FileNotFoundError \<Rightarrow>
          ([Error ''Dataset not found! Please download World Energy Consumption.csv'',
            Markdown ''How to get the dataset''], None)
      | OtherException e \<Rightarrow> ([Error (''Error loading data: '' @ e)], None))"

text \<open>What the user has chosen in the widgets.\<close>

record selections =
  selected_countries :: "string list"
  selected_year_range :: "int \<times> int"
  mix_country :: string
  mix_year :: int
  top_year :: int

text \<open>What the page shows below the controls.\<close>

record dashboard =
  overview_metrics :: energy_metrics
  trends_fig :: table
  mix_fig :: "(string \<times> real) list option"
  top_consumers_fig :: table
  renewable_fig :: table
  fastest_growing_insight :: "(string \<times> py_float) option"

text \<open>
  \<^verbatim>\<open>main\<close>: the messages shown while loading, the table the page works on, and the
  charts (\<open>None\<close> when \<^verbatim>\<open>main\<close> returns early because no country is selected).
  The detailed data table and the insights on the highest consumer and on the most
  renewable country are further displays of the same table and are left out.
\<close>

definition main_df :: "'s rng \<Rightarrow> read_outcome \<Rightarrow> 's \<Rightarrow> (ui_message list \<times> table) \<times> 's" where
  "main_df g outcome s =
     (case load_energy_data outcome of
        (msgs, None) \<Rightarrow>
          (let (df, s') = create_sample_data g s
           in ((msgs @ [Info ''Using sample data for demonstration.''], df), s'))
      | (msgs, Some df) \<Rightarrow> ((msgs, df), s))"

definition main_charts :: "table \<Rightarrow> selections \<Rightarrow> ui_message list \<times> dashboard option" where
  "main_charts df sel =
     (let filtered_df = filter_selection df (selected_countries sel) (selected_year_range sel)
      in if selected_countries sel = []
         then ([Warning ''Please select at least one country from the sidebar!''], None)
         else
           (let mix = create_energy_mix_chart df (mix_country sel) (mix_year sel)
            in ((if mix = None
                 then [Info ''No energy mix data available for selected country/year'']
                 else []),
                Some
                  \<lparr> overview_metrics = calculate_energy_metrics df,
                    trends_fig = create_consumption_trends filtered_df (selected_countries sel),
                    mix_fig = mix,
                    top_consumers_fig = create_top_consumers_chart df (top_year sel) None,
                    renewable_fig =
                      create_renewable_growth_chart filtered_df (selected_countries sel),
                    fastest_growing_insight =
                      (if filtered_df = [] then None
                       else fastest_growing filtered_df (selected_countries sel)) \<rparr>)))"

definition main ::
  "'s rng \<Rightarrow> read_outcome \<Rightarrow> selections \<Rightarrow> 's
     \<Rightarrow> (ui_message list \<times> table \<times> dashboard option) \<times> 's" where
  "main g outcome sel s =
     (let ((msgs, df), s') = main_df g outcome s;
          (msgs', page) = main_charts df sel
      in ((msgs @ msgs', df, page), s'))"

section \<open>Data frames as objects\<close>

text \<open>
  To speak of what a function leaves unchanged, data frames live in a store and are named
  by references. Indexing by a boolean mask, \<^verbatim>\<open>copy\<close> and \<^verbatim>\<open>nlargest\<close> build a new
  frame; assigning a column changes the frame it is applied to, in place.
\<close>

type_synonym store = "table list"

type_synonym frame_ref = nat

definition new_frame :: "table \<Rightarrow> store \<Rightarrow> frame_ref \<times> store" where
  "new_frame t st = (length st, st @ [t])"

definition df_mask :: "(energy_record \<Rightarrow> bool) \<Rightarrow> frame_ref \<Rightarrow> store \<Rightarrow> frame_ref \<times> store" where
  "df_mask p a st = new_frame (filter p (st ! a)) st"

definition df_copy :: "frame_ref \<Rightarrow> store \<Rightarrow> frame_ref \<times> store" where
  "df_copy a st = new_frame (st ! a) st"

definition df_nlargest ::
  "nat \<Rightarrow> (energy_record \<Rightarrow> real) \<Rightarrow> frame_ref \<Rightarrow> store \<Rightarrow> frame_ref \<times> store" where
  "df_nlargest n col a st = new_frame (nlargest n col (st ! a)) st"

definition df_assign ::
  "(energy_record \<Rightarrow> energy_record) \<Rightarrow> frame_ref \<Rightarrow> store \<Rightarrow> store" where
  "df_assign f a st = st[a := map f (st ! a)]"

text \<open>The derivation functions on references: the value they compute, and the store after.\<close>

definition calculate_energy_metrics_st :: "frame_ref \<Rightarrow> store \<Rightarrow> energy_metrics \<times> store" where
  "calculate_energy_metrics_st df st =
     (let latest = latest_year (st ! df);
          (latest_data, st1) = df_mask (\<lambda>r. Some (year r) = latest) df st
      in (metrics_of (st1 ! latest_data), st1))"

definition create_consumption_trends_st ::
  "frame_ref \<Rightarrow> string list \<Rightarrow> store \<Rightarrow> table \<times> store" where
  "create_consumption_trends_st df selected st =
     (let (filtered_df, st1) = df_mask (\<lambda>r. country r \<in> set selected) df st
      in (st1 ! filtered_df, st1))"

definition create_energy_mix_chart_st ::
  "frame_ref \<Rightarrow> string \<Rightarrow> int \<Rightarrow> store \<Rightarrow> (string \<times> real) list option \<times> store" where
  "create_energy_mix_chart_st df selected_country selected_year st =
     (let (country_data, st1) =
            df_mask (\<lambda>r. country r = selected_country \<and> year r = selected_year) df st
      in (case st1 ! country_data of
            [] \<Rightarrow> None
          | r # _ \<Rightarrow>
              (let kept = filter (\<lambda>(k, v). v > 0) (energy_sources r)
               in if kept = [] then None else Some kept),
          st1))"

definition create_top_consumers_chart_st ::
  "frame_ref \<Rightarrow> int \<Rightarrow> nat option \<Rightarrow> store \<Rightarrow> table \<times> store" where
  "create_top_consumers_chart_st df y top_n st =
     (let (at_year, st1) = df_mask (\<lambda>r. year r = y) df st;
          (year_data, st2) =
            df_nlargest (case top_n of None \<Rightarrow> 10 | Some n \<Rightarrow> n) primary_energy_consumption
              at_year st1
      in (st2 ! year_data, st2))"

definition create_renewable_growth_chart_st ::
  "frame_ref \<Rightarrow> string list \<Rightarrow> store \<Rightarrow> table \<times> store" where
  "create_renewable_growth_chart_st df selected st =
     (let (masked, st1) = df_mask (\<lambda>r. country r \<in> set selected) df st;
          (filtered_df, st2) = df_copy masked st1;
          st3 = df_assign (\<lambda>r. r\<lparr>total_renewable := Some 0\<rparr>) filtered_df st2;
          st4 = foldl (\<lambda>st' col. df_assign (add_renewable col) filtered_df st') st3
                  renewable_cols
      in (st4 ! filtered_df, st4))"

section \<open>Example data\<close>

definition mk_row :: "string \<Rightarrow> int \<Rightarrow> real \<Rightarrow> real \<Rightarrow> real \<Rightarrow> energy_record" where
  "mk_row c y p coal solar =
     \<lparr> country = c, year = y, primary_energy_consumption = p,
       coal_consumption = Some coal, gas_consumption = Some 0, oil_consumption = Some 0,
       nuclear_consumption = Some 0, hydro_consumption = Some 0, wind_consumption = Some 0,
       solar_consumption = Some solar, other_renewable_consumption = None,
       electricity_generation = None, gdp = None, population = None,
       total_renewable = None \<rparr>"

definition example_table :: table where
  "example_table =
     [mk_row ''A'' 2020 90 60 30, mk_row ''A'' 2021 100 50 50, mk_row ''B'' 2021 100 100 0]"

text \<open>A generator that always draws one half, with the number of draws as its state.\<close>

definition half_rng :: "nat rng" where
  "half_rng = \<lparr> seed_rng = (\<lambda>n. 0), random_sample = (\<lambda>s. (1 / 2, Suc s)) \<rparr>"

text \<open>
  The count of countries as the specification words it: the distinct countries among the
  rows whose year no row exceeds. \<open>unique_keys\<close> is the uniqueness of (country, year)
  that the data model expects and does not enforce.
\<close>

definition rows_at_max_year :: "table \<Rightarrow> energy_record set" where
  "rows_at_max_year df = {r \<in> set df. \<forall>r' \<in> set df. year r' \<le> year r}"

definition distinct_countries_at_max_year :: "table \<Rightarrow> nat" where
  "distinct_countries_at_max_year df = card (country ` rows_at_max_year df)"

definition unique_keys :: "table \<Rightarrow> bool" where
  "unique_keys df = distinct (map (\<lambda>r. (country r, year r)) df)"

definition duplicate_table :: table where
  "duplicate_table = [mk_row ''A'' 2021 100 50 50, mk_row ''A'' 2021 70 70 0]"

text \<open>
  What the energy-mix claims speak of: the tracked source values of a row being all zero,
  or none of them positive, and the sum of the positive ones.
\<close>

definition sources_zero :: "energy_record \<Rightarrow> bool" where
  "sources_zero r = list_all (\<lambda>col. cell (col r) = 0) source_cols"

definition sources_nonpositive :: "energy_record \<Rightarrow> bool" where
  "sources_nonpositive r = list_all (\<lambda>col. cell (col r) \<le> 0) source_cols"

definition sources_sum :: "energy_record \<Rightarrow> real" where
  "sources_sum r = (\<Sum>col\<leftarrow>source_cols. cell (col r))"

definition positive_sources_sum :: "energy_record \<Rightarrow> real" where
  "positive_sources_sum r = (\<Sum>col\<leftarrow>source_cols. max 0 (cell (col r)))"

definition mix_total :: "(string \<times> real) list \<Rightarrow> real" where
  "mix_total m = sum_list (map snd m)"

definition negative_table :: table where
  "negative_table = [mk_row ''A'' 2021 100 (- 5) 0]"

definition overshoot_table :: table where
  "overshoot_table = [mk_row ''A'' 2021 10 20 0]"

definition repeated_table :: table where
  "repeated_table =
     [mk_row ''B'' 2021 100 100 0, mk_row ''A'' 2021 100 50 50, mk_row ''A'' 2021 70 70 0]"

text \<open>
  The two-row series of the specification, later year first. A scenario of a growing
  country beside a flat one, with a row before the chosen years and a country that is not
  chosen. The same two countries with a negative last value.
\<close>

definition two_row_series :: table where
  "two_row_series = [mk_row ''X'' 2001 110 0 0, mk_row ''X'' 2000 100 0 0]"

definition growth_scenario :: table where
  "growth_scenario =
     [mk_row ''A'' 2019 400 0 0, mk_row ''C'' 2020 1 0 0,
      mk_row ''A'' 2021 200 0 0, mk_row ''B'' 2020 50 0 0,
      mk_row ''A'' 2020 100 0 0, mk_row ''B'' 2021 50 0 0, mk_row ''C'' 2021 100 0 0]"

definition negative_last_scenario :: table where
  "negative_last_scenario =
     [mk_row ''A'' 2020 100 0 0, mk_row ''B'' 2020 50 0 0,
      mk_row ''A'' 2021 (- 50) 0 0, mk_row ''B'' 2021 50 0 0]"

text \<open>Four rows of one year, two of them equal in consumption, and a row of another year.\<close>

definition ranking_table :: table where
  "ranking_table =
     [mk_row ''A'' 2021 5 0 0, mk_row ''B'' 2021 9 0 0, mk_row ''C'' 2021 7 0 0,
      mk_row ''D'' 2021 9 0 0, mk_row ''E'' 2020 100 0 0]"

text \<open>A choice of the widgets, for running the page.\<close>

definition example_selections :: selections where
  "example_selections =
     \<lparr> selected_countries = [''China''], selected_year_range = (2012, 2022),
       mix_country = ''China'', mix_year = 2022, top_year = 2022 \<rparr>"

section \<open>Facts about the metrics calculator\<close>

lemma cols_total_renewable: "cols_total renewable_cols df = (\<Sum>r\<leftarrow>df. row_renewable r)"
  by (induction df)
     (simp_all add: cols_total_def renewable_cols_def col_sum_def row_renewable_def)

lemma cols_total_fossil: "cols_total fossil_cols df = (\<Sum>r\<leftarrow>df. row_fossil r)"
  by (induction df)
     (simp_all add: cols_total_def fossil_cols_def col_sum_def row_fossil_def)

lemma row_renewable_nonneg: "row_nonneg r \<Longrightarrow> 0 \<le> row_renewable r"
  by (simp add: row_nonneg_def source_cols_def row_renewable_def)

lemma row_fossil_nonneg: "row_nonneg r \<Longrightarrow> 0 \<le> row_fossil r"
  by (simp add: row_nonneg_def source_cols_def row_fossil_def)

lemma latest_data_subset: "set (latest_data df) \<subseteq> set df"
  by (auto simp: latest_data_def split: option.splits)

lemma spec_renewable_total_nonneg:
  "list_all row_nonneg df \<Longrightarrow> 0 \<le> spec_renewable_total df"
  unfolding spec_renewable_total_def
  using latest_data_subset [of df]
  by (intro sum_list_nonneg) (auto simp: list_all_iff row_renewable_nonneg)

lemma spec_fossil_total_nonneg:
  "list_all row_nonneg df \<Longrightarrow> 0 \<le> spec_fossil_total df"
  unfolding spec_fossil_total_def
  using latest_data_subset [of df]
  by (intro sum_list_nonneg) (auto simp: list_all_iff row_fossil_nonneg)

lemma renewable_percentage_unfold:
  "renewable_percentage (calculate_energy_metrics df) =
     (if spec_renewable_total df + spec_fossil_total df > 0
      then (spec_renewable_total df / (spec_renewable_total df + spec_fossil_total df)) * 100
      else 0)"
  by (simp add: calculate_energy_metrics_def metrics_of_def Let_def cols_total_renewable
        cols_total_fossil
        spec_renewable_total_def spec_fossil_total_def)

text \<open>
  Claim C1. On a table whose consumption values are all non-negative, the
  \<open>renewable_percentage\<close> that \<open>calculate_energy_metrics\<close> returns is
  \<open>100 * renewable_total / (renewable_total + fossil_total)\<close>, the totals being the sums of
  hydro, wind, solar and other-renewable (respectively coal, gas and oil) over the
  latest-year rows; it is \<open>0\<close> when the denominator is \<open>0\<close>, and it lies in \<open>[0, 100]\<close>.
\<close>

theorem renewable_percentage_formula:
  assumes "list_all row_nonneg df"
  shows "renewable_percentage (calculate_energy_metrics df) =
           (if spec_renewable_total df + spec_fossil_total df = 0 then 0
            else 100 * spec_renewable_total df
                   / (spec_renewable_total df + spec_fossil_total df))
         \<and> 0 \<le> renewable_percentage (calculate_energy_metrics df)
         \<and> renewable_percentage (calculate_energy_metrics df) \<le> 100"
proof -
  let ?R = "spec_renewable_total df" and ?F = "spec_fossil_total df"
  have R: "0 \<le> ?R" and F: "0 \<le> ?F"
    using assms by (simp_all add: spec_renewable_total_nonneg spec_fossil_total_nonneg)
  show ?thesis
  proof (cases "?R + ?F = 0")
    case True
    then show ?thesis by (simp add: renewable_percentage_unfold)
  next
    case False
    with R F have pos: "0 < ?R + ?F" by linarith
    have val: "renewable_percentage (calculate_energy_metrics df) = 100 * ?R / (?R + ?F)"
      using pos by (simp add: renewable_percentage_unfold)
    have lo: "0 \<le> 100 * ?R / (?R + ?F)" using R pos by simp
    have "100 * ?R \<le> 100 * (?R + ?F)" using F by simp
    then have hi: "100 * ?R / (?R + ?F) \<le> 100" using pos by (simp add: divide_le_eq)
    show ?thesis using False val lo hi by simp
  qed
qed

theorem renewable_percentage_formula_witness:
  "list_all row_nonneg example_table
   \<and> renewable_percentage (calculate_energy_metrics example_table) = 25"
proof -
  have h: "list_all row_nonneg example_table"
    by (simp add: example_table_def mk_row_def row_nonneg_def source_cols_def cell_def)
  have R: "spec_renewable_total example_table = 50"
    by (simp add: spec_renewable_total_def latest_data_def latest_year_def example_table_def
          mk_row_def row_renewable_def cell_def)
  have F: "spec_fossil_total example_table = 150"
    by (simp add: spec_fossil_total_def latest_data_def latest_year_def example_table_def
          mk_row_def row_fossil_def cell_def)
  show ?thesis using h renewable_percentage_formula [OF h] by (simp add: R F)
qed

section \<open>The count of countries\<close>

lemma latest_data_rows_at_max_year: "set (latest_data df) = rows_at_max_year df"
proof (cases "df = []")
  case True
  then show ?thesis by (simp add: latest_data_def latest_year_def rows_at_max_year_def)
next
  case False
  let ?Y = "set (map year df)"
  have fin: "finite ?Y" and ne: "?Y \<noteq> {}" using False by simp_all
  have "\<And>r. r \<in> set df \<Longrightarrow> (year r = Max ?Y) = (\<forall>r' \<in> set df. year r' \<le> year r)"
  proof -
    fix r assume r: "r \<in> set df"
    then have "year r \<in> ?Y" by simp
    show "(year r = Max ?Y) = (\<forall>r' \<in> set df. year r' \<le> year r)"
    proof
      assume "year r = Max ?Y"
      then show "\<forall>r' \<in> set df. year r' \<le> year r" using fin by simp
    next
      assume a: "\<forall>r' \<in> set df. year r' \<le> year r"
      show "year r = Max ?Y"
      proof (rule sym, rule Max_eqI [OF fin])
        show "\<And>y. y \<in> ?Y \<Longrightarrow> y \<le> year r" using a by auto
        show "year r \<in> ?Y" using r by simp
      qed
    qed
  qed
  then show ?thesis using False
    by (auto simp: latest_data_def latest_year_def rows_at_max_year_def)
qed

lemma countries_count_length:
  "countries_count (calculate_energy_metrics df) = length (latest_data df)"
  by (simp add: calculate_energy_metrics_def metrics_of_def Let_def)

lemma latest_data_same_year:
  "r \<in> set (latest_data df) \<Longrightarrow> r' \<in> set (latest_data df) \<Longrightarrow> year r = year r'"
  by (cases "latest_year df") (auto simp: latest_data_def)

lemma unique_keys_latest_distinct:
  assumes "unique_keys df"
  shows "distinct (map country (latest_data df))"
proof -
  from assms have d: "distinct df" and inj: "inj_on (\<lambda>r. (country r, year r)) (set df)"
    by (simp_all add: unique_keys_def distinct_map)
  have "distinct (latest_data df)" using d
    by (simp add: latest_data_def split: option.splits)
  moreover have "inj_on country (set (latest_data df))"
  proof (rule inj_onI)
    fix r r' assume r: "r \<in> set (latest_data df)" and r': "r' \<in> set (latest_data df)"
      and c: "country r = country r'"
    have "year r = year r'" using r r' by (rule latest_data_same_year)
    moreover have "r \<in> set df" "r' \<in> set df" using r r' latest_data_subset by auto
    ultimately show "r = r'" using inj c by (auto dest: inj_onD)
  qed
  ultimately show ?thesis by (simp add: distinct_map)
qed

text \<open>
  Claim C2, as the code has it. \<open>countries_count\<close> is the number of rows at the maximum
  year; these rows are exactly the rows whose year no row exceeds. Where no (country, year)
  pair occurs twice in the table, that number is the number of distinct countries with a
  row at the maximum year.
\<close>

theorem countries_count_rows:
  "countries_count (calculate_energy_metrics df) = length (latest_data df)
   \<and> set (latest_data df) = rows_at_max_year df
   \<and> (unique_keys df \<longrightarrow>
        countries_count (calculate_energy_metrics df) = distinct_countries_at_max_year df)"
proof -
  have "unique_keys df \<Longrightarrow> length (latest_data df) = distinct_countries_at_max_year df"
  proof -
    assume "unique_keys df"
    then have "distinct (map country (latest_data df))" by (rule unique_keys_latest_distinct)
    then have "card (set (map country (latest_data df))) = length (latest_data df)"
      using distinct_card by fastforce
    then show ?thesis
      by (simp add: distinct_countries_at_max_year_def latest_data_rows_at_max_year [symmetric])
  qed
  then show ?thesis
    by (simp add: countries_count_length latest_data_rows_at_max_year)
qed

theorem countries_count_rows_witness:
  "unique_keys example_table
   \<and> countries_count (calculate_energy_metrics example_table) = 2
   \<and> distinct_countries_at_max_year example_table = 2"
proof -
  have u: "unique_keys example_table"
    by (simp add: unique_keys_def example_table_def mk_row_def)
  have "length (latest_data example_table) = 2"
    by (simp add: latest_data_def latest_year_def example_table_def mk_row_def)
  then show ?thesis using u countries_count_rows [of example_table] by simp
qed

text \<open>
  Two rows of one country at the maximum year are counted twice, though they are one
  country.
\<close>

theorem countries_count_duplicate_rows:
  "duplicate_table \<noteq> []
   \<and> countries_count (calculate_energy_metrics duplicate_table) = 2
   \<and> distinct_countries_at_max_year duplicate_table = 1"
proof -
  have l: "latest_data duplicate_table = duplicate_table"
    by (simp add: latest_data_def latest_year_def duplicate_table_def mk_row_def)
  have "country ` set duplicate_table = {''A''}"
    by (simp add: duplicate_table_def mk_row_def)
  then have "distinct_countries_at_max_year duplicate_table = 1"
    by (simp add: distinct_countries_at_max_year_def latest_data_rows_at_max_year [symmetric] l)
  moreover have "countries_count (calculate_energy_metrics duplicate_table) = 2"
    by (simp add: calculate_energy_metrics_def metrics_of_def Let_def l) (simp add: duplicate_table_def)
  ultimately show ?thesis by (simp add: duplicate_table_def)
qed

section \<open>The energy mix\<close>

lemma kept_positive: "list_all (\<lambda>(k, v). v > 0) (filter (\<lambda>(k, v). v > 0) xs)"
  by (induction xs) auto

lemma kept_empty_iff:
  "filter (\<lambda>(k, v). v > 0) (energy_sources r) = [] \<longleftrightarrow> sources_nonpositive r"
  by (auto simp: energy_sources_def sources_nonpositive_def source_cols_def not_less)

lemma kept_total:
  "mix_total (filter (\<lambda>(k, v). v > 0) (energy_sources r)) = positive_sources_sum r"
  by (simp add: mix_total_def energy_sources_def positive_sources_sum_def source_cols_def
        max_def)

lemma nonneg_nonpositive_zero:
  "row_nonneg r \<Longrightarrow> sources_nonpositive r = sources_zero r"
  by (auto simp: row_nonneg_def sources_nonpositive_def sources_zero_def source_cols_def)

lemma nonneg_positive_sum: "row_nonneg r \<Longrightarrow> positive_sources_sum r = sources_sum r"
  by (simp add: row_nonneg_def positive_sources_sum_def sources_sum_def source_cols_def
        max_def)

lemma mix_chart_Cons:
  "mix_rows df c y = r # rest \<Longrightarrow>
   create_energy_mix_chart df c y =
     (if sources_nonpositive r then None
      else Some (filter (\<lambda>(k, v). v > 0) (energy_sources r)))"
  by (simp add: create_energy_mix_chart_def Let_def kept_empty_iff)

lemma mix_chart_Nil: "mix_rows df c y = [] \<Longrightarrow> create_energy_mix_chart df c y = None"
  by (simp add: create_energy_mix_chart_def)

lemma mix_rows_subset: "set (mix_rows df c y) \<subseteq> set df"
  by (auto simp: mix_rows_def)

text \<open>
  Claim C6, as the code has it. The energy-mix function returns \<open>None\<close> exactly when no
  row exists for the (country, year) pair or no tracked source value of the first matching
  row is positive; every entry of a mapping it returns is positive, hence not zero. On a
  table whose consumption values are all non-negative, "no value is positive" is "every
  value is zero".
\<close>

theorem energy_mix_none_iff:
  "(create_energy_mix_chart df c y = None \<longleftrightarrow>
      mix_rows df c y = [] \<or> sources_nonpositive (hd (mix_rows df c y)))
   \<and> (\<forall>m. create_energy_mix_chart df c y = Some m \<longrightarrow> list_all (\<lambda>(k, v). v > 0) m)
   \<and> (list_all row_nonneg df \<longrightarrow>
        (create_energy_mix_chart df c y = None \<longleftrightarrow>
           mix_rows df c y = [] \<or> sources_zero (hd (mix_rows df c y))))"
proof (cases "mix_rows df c y")
  case Nil
  then show ?thesis by (simp add: mix_chart_Nil)
next
  case (Cons r rest)
  then have "r \<in> set df" using mix_rows_subset [of df c y] by auto
  then have "list_all row_nonneg df \<Longrightarrow> sources_nonpositive r = sources_zero r"
    by (simp add: list_all_iff nonneg_nonpositive_zero)
  then show ?thesis using Cons by (auto simp: mix_chart_Cons kept_positive)
qed

theorem energy_mix_none_iff_witness:
  "list_all row_nonneg example_table
   \<and> create_energy_mix_chart example_table ''A'' 2021 = Some [(''Coal'', 50), (''Solar'', 50)]
   \<and> mix_rows example_table ''A'' 2021 \<noteq> []
   \<and> \<not> sources_zero (hd (mix_rows example_table ''A'' 2021))"
proof -
  have h: "list_all row_nonneg example_table"
    by (simp add: example_table_def mk_row_def row_nonneg_def source_cols_def cell_def)
  have v: "create_energy_mix_chart example_table ''A'' 2021 = Some [(''Coal'', 50), (''Solar'', 50)]"
    by (simp add: create_energy_mix_chart_def mix_rows_def example_table_def mk_row_def
          energy_sources_def cell_def)
  show ?thesis using h v energy_mix_none_iff [of example_table "''A''" 2021] by auto
qed

text \<open>
  A row whose only non-zero tracked value is negative: a row exists, not every value is
  zero, and the result is \<open>None\<close>.
\<close>

theorem energy_mix_negative_value:
  "create_energy_mix_chart negative_table ''A'' 2021 = None
   \<and> mix_rows negative_table ''A'' 2021 \<noteq> []
   \<and> \<not> sources_zero (hd (mix_rows negative_table ''A'' 2021))"
  by (simp add: create_energy_mix_chart_def mix_rows_def negative_table_def mk_row_def
        energy_sources_def cell_def sources_zero_def source_cols_def)

text \<open>
  Claim C7, as the code has it. The values of a returned mapping add up to the sum of the
  positive tracked source values of the first matching row. That sum is at most the row's
  \<open>primary_energy_consumption\<close> where the row's values are non-negative and its tracked
  sources add up to at most its primary consumption, which nothing in the code ensures.
\<close>

theorem energy_mix_total:
  assumes "create_energy_mix_chart df c y = Some m"
  shows "mix_rows df c y \<noteq> []
         \<and> mix_total m = positive_sources_sum (hd (mix_rows df c y))
         \<and> (row_nonneg (hd (mix_rows df c y))
              \<and> sources_sum (hd (mix_rows df c y))
                  \<le> primary_energy_consumption (hd (mix_rows df c y))
            \<longrightarrow> mix_total m \<le> primary_energy_consumption (hd (mix_rows df c y)))"
proof (cases "mix_rows df c y")
  case Nil
  with assms show ?thesis by (simp add: mix_chart_Nil)
next
  case (Cons r rest)
  with assms have "m = filter (\<lambda>(k, v). v > 0) (energy_sources r)"
    by (simp add: mix_chart_Cons split: if_splits)
  then have "mix_total m = positive_sources_sum r" by (simp add: kept_total)
  then show ?thesis using Cons by (auto simp: nonneg_positive_sum)
qed

theorem energy_mix_total_witness:
  "create_energy_mix_chart example_table ''A'' 2021 = Some [(''Coal'', 50), (''Solar'', 50)]
   \<and> row_nonneg (hd (mix_rows example_table ''A'' 2021))
   \<and> sources_sum (hd (mix_rows example_table ''A'' 2021)) = 100
   \<and> primary_energy_consumption (hd (mix_rows example_table ''A'' 2021)) = 100
   \<and> mix_total [(''Coal'', 50), (''Solar'', 50)] \<le> 100"
proof -
  have v: "create_energy_mix_chart example_table ''A'' 2021 = Some [(''Coal'', 50), (''Solar'', 50)]"
    by (simp add: create_energy_mix_chart_def mix_rows_def example_table_def mk_row_def
          energy_sources_def cell_def)
  have r: "hd (mix_rows example_table ''A'' 2021) = mk_row ''A'' 2021 100 50 50"
    by (simp add: mix_rows_def example_table_def mk_row_def)
  have n: "row_nonneg (mk_row ''A'' 2021 100 50 50)"
    by (simp add: mk_row_def row_nonneg_def source_cols_def cell_def)
  have s: "sources_sum (mk_row ''A'' 2021 100 50 50) = 100"
    by (simp add: mk_row_def sources_sum_def source_cols_def cell_def)
  have p: "primary_energy_consumption (mk_row ''A'' 2021 100 50 50) = 100"
    by (simp add: mk_row_def)
  show ?thesis using energy_mix_total [OF v] v r n s p by simp
qed

text \<open>
  A row of non-negative values whose coal consumption alone exceeds its primary
  consumption: the mapping adds up to 20, the row's primary consumption is 10.
\<close>

theorem energy_mix_exceeds_primary:
  "list_all row_nonneg overshoot_table
   \<and> create_energy_mix_chart overshoot_table ''A'' 2021 = Some [(''Coal'', 20)]
   \<and> primary_energy_consumption (hd (mix_rows overshoot_table ''A'' 2021)) = 10
   \<and> \<not> mix_total [(''Coal'', 20)]
         \<le> primary_energy_consumption (hd (mix_rows overshoot_table ''A'' 2021))"
  by (simp add: create_energy_mix_chart_def mix_rows_def overshoot_table_def mk_row_def
        energy_sources_def cell_def row_nonneg_def source_cols_def mix_total_def)

text \<open>
  Claim C10. Where the table holds several rows for one (country, year) pair, the
  energy-mix function builds its result from the first of them in table order alone: the
  rows after it, duplicates included, do not matter.
\<close>

theorem energy_mix_first_row:
  assumes "\<forall>p \<in> set pre. \<not> (country p = c \<and> year p = y)"
    and "country r = c \<and> year r = y"
  shows "create_energy_mix_chart (pre @ r # post) c y = create_energy_mix_chart [r] c y
         \<and> create_energy_mix_chart (pre @ r # post) c y =
             (if sources_nonpositive r then None
              else Some (filter (\<lambda>(k, v). v > 0) (energy_sources r)))"
proof -
  have "filter (\<lambda>p. country p = c \<and> year p = y) pre = []" using assms(1) by (simp add: filter_empty_conv)
  then have a: "mix_rows (pre @ r # post) c y = r # mix_rows post c y"
    using assms(2) by (simp add: mix_rows_def)
  have b: "mix_rows [r] c y = r # []" using assms(2) by (simp add: mix_rows_def)
  show ?thesis by (simp add: mix_chart_Cons [OF a] mix_chart_Cons [OF b])
qed

theorem energy_mix_first_row_witness:
  "country (mk_row ''B'' 2021 100 100 0) = ''B''
   \<and> country (mk_row ''A'' 2021 100 50 50) = ''A'' \<and> year (mk_row ''A'' 2021 100 50 50) = 2021
   \<and> create_energy_mix_chart repeated_table ''A'' 2021 = Some [(''Coal'', 50), (''Solar'', 50)]"
proof -
  have h1: "\<forall>p \<in> set [mk_row ''B'' 2021 100 100 0]. \<not> (country p = ''A'' \<and> year p = 2021)"
    by (simp add: mk_row_def)
  have h2: "country (mk_row ''A'' 2021 100 50 50) = ''A'' \<and> year (mk_row ''A'' 2021 100 50 50) = 2021"
    by (simp add: mk_row_def)
  have v: "create_energy_mix_chart [mk_row ''A'' 2021 100 50 50] ''A'' 2021 = Some [(''Coal'', 50), (''Solar'', 50)]"
    by (simp add: create_energy_mix_chart_def mix_rows_def mk_row_def energy_sources_def cell_def)
  show ?thesis
    using energy_mix_first_row [OF h1 h2, of "[mk_row ''A'' 2021 70 70 0]"] h2 v
    by (simp add: repeated_table_def) (simp add: mk_row_def)
qed

section \<open>The top consumers\<close>

lemma filter_take_prefix: "prefix (filter P (take n xs)) (filter P xs)"
proof -
  have "filter P xs = filter P (take n xs) @ filter P (drop n xs)"
    by (metis append_take_drop_id filter_append)
  then show ?thesis by (metis prefixI)
qed

lemma nlargest_length: "length (nlargest n col df) = min n (length df)"
  by (simp add: nlargest_def min.commute)

lemma nlargest_set: "set (nlargest n col df) \<subseteq> set df"
  using set_take_subset [of n "sort_key (\<lambda>r. - col r) df"] by (simp add: nlargest_def)

lemma sort_key_descending:
  fixes col :: "energy_record \<Rightarrow> real"
  shows "sorted_wrt (\<lambda>a b. col a \<ge> col b) (sort_key (\<lambda>r. - col r) df)"
proof -
  have "sorted (map (\<lambda>r. - col r) (sort_key (\<lambda>r. - col r) df))"
    by (rule sorted_sort_key)
  then have "sorted_wrt (\<lambda>a b. - col a \<le> - col b) (sort_key (\<lambda>r. - col r) df)"
    by (simp add: sorted_map)
  then show ?thesis by simp
qed

lemma nlargest_descending: "sorted_wrt (\<lambda>a b. col a \<ge> col b) (nlargest n col df)"
  unfolding nlargest_def using sort_key_descending by (rule sorted_wrt_take)

lemma nlargest_stable:
  "prefix (filter (\<lambda>r. col r = v) (nlargest n col df)) (filter (\<lambda>r. col r = v) df)"
proof -
  have "filter (\<lambda>r. - col r = - v) (sort_key (\<lambda>r. - col r) df) = filter (\<lambda>r. - col r = - v) df"
    by (rule sort_key_stable)
  then have "filter (\<lambda>r. col r = v) (sort_key (\<lambda>r. - col r) df) = filter (\<lambda>r. col r = v) df"
    by simp
  then show ?thesis
    using filter_take_prefix [of "\<lambda>r. col r = v" n "sort_key (\<lambda>r. - col r) df"]
    by (simp add: nlargest_def)
qed

text \<open>The rows that are not kept: none of them has more than a row that is kept.\<close>

lemma nlargest_largest:
  "\<exists>rest. mset (nlargest n col df) + mset rest = mset df
          \<and> (\<forall>a \<in> set (nlargest n col df). \<forall>b \<in> set rest. col b \<le> col a)"
proof (intro exI conjI)
  let ?s = "sort_key (\<lambda>r. - col r) df"
  have "mset (take n ?s) + mset (drop n ?s) = mset (take n ?s @ drop n ?s)"
    by (simp only: mset_append)
  also have "\<dots> = mset df" by (simp only: append_take_drop_id mset_sort)
  finally show "mset (nlargest n col df) + mset (drop n ?s) = mset df"
    unfolding nlargest_def .
  have "sorted_wrt (\<lambda>a b. col a \<ge> col b) (take n ?s @ drop n ?s)"
    using sort_key_descending [of col df] by simp
  then show "\<forall>a \<in> set (nlargest n col df). \<forall>b \<in> set (drop n ?s). col b \<le> col a"
    unfolding nlargest_def sorted_wrt_append by blast
qed

text \<open>
  Claim C5. The top-N consumers of a year are rows of the table at that year; there are
  \<open>min N (number of rows at that year)\<close> of them; they are in descending order of
  \<open>primary_energy_consumption\<close>; they are the largest of the year, no row of the year
  that is left out having more than one that is kept; rows of equal consumption keep
  their order in the table, the earlier ones being selected first; and an omitted \<open>N\<close>
  is 10.
\<close>

theorem top_consumers_chart:
  fixes df :: table and y :: int and top_n :: "nat option"
  defines "n \<equiv> (case top_n of None \<Rightarrow> 10 | Some k \<Rightarrow> k)"
  defines "res \<equiv> create_top_consumers_chart df y top_n"
  shows "(\<forall>r \<in> set res. r \<in> set df \<and> year r = y)
         \<and> length res = min n (length (filter (\<lambda>r. year r = y) df))
         \<and> sorted_wrt (\<lambda>a b. primary_energy_consumption a \<ge> primary_energy_consumption b) res
         \<and> (\<exists>rest. mset res + mset rest = mset (filter (\<lambda>r. year r = y) df)
                \<and> (\<forall>a \<in> set res. \<forall>b \<in> set rest.
                      primary_energy_consumption b \<le> primary_energy_consumption a))
         \<and> (\<forall>v. prefix (filter (\<lambda>r. primary_energy_consumption r = v) res)
                  (filter (\<lambda>r. primary_energy_consumption r = v) (filter (\<lambda>r. year r = y) df)))
         \<and> create_top_consumers_chart df y None = create_top_consumers_chart df y (Some 10)"
proof -
  have res: "res = nlargest n primary_energy_consumption (year_rows df y)"
    by (simp add: res_def n_def create_top_consumers_chart_def)
  have yr: "year_rows df y = filter (\<lambda>r. year r = y) df" by (simp add: year_rows_def)
  have "set res \<subseteq> set (filter (\<lambda>r. year r = y) df)"
    unfolding res yr by (rule nlargest_set)
  then have 1: "\<forall>r \<in> set res. r \<in> set df \<and> year r = y" by auto
  have 2: "length res = min n (length (filter (\<lambda>r. year r = y) df))"
    unfolding res yr by (rule nlargest_length)
  have 3: "sorted_wrt (\<lambda>a b. primary_energy_consumption a \<ge> primary_energy_consumption b) res"
    unfolding res by (rule nlargest_descending)
  have 4: "\<exists>rest. mset res + mset rest = mset (filter (\<lambda>r. year r = y) df)
                \<and> (\<forall>a \<in> set res. \<forall>b \<in> set rest.
                      primary_energy_consumption b \<le> primary_energy_consumption a)"
    unfolding res yr by (rule nlargest_largest)
  have 5: "\<forall>v. prefix (filter (\<lambda>r. primary_energy_consumption r = v) res)
                  (filter (\<lambda>r. primary_energy_consumption r = v) (filter (\<lambda>r. year r = y) df))"
    unfolding res yr using nlargest_stable by blast
  have 6: "create_top_consumers_chart df y None = create_top_consumers_chart df y (Some 10)"
    by (simp add: create_top_consumers_chart_def)
  show ?thesis using 1 2 3 4 5 6 by blast
qed

text \<open>
  Of the consumptions 5, 9, 7, 9 of the year 2021 the top three are 9, 9, 7: the row of 5
  is left out, the two rows of 9 come in their table order, and the row of another year
  takes no part.
\<close>

theorem top_consumers_chart_witness:
  "create_top_consumers_chart ranking_table 2021 (Some 3)
     = [mk_row ''B'' 2021 9 0 0, mk_row ''D'' 2021 9 0 0, mk_row ''C'' 2021 7 0 0]
   \<and> length (create_top_consumers_chart ranking_table 2021 (Some 3)) = min 3 4
   \<and> prefix [mk_row ''B'' 2021 9 0 0, mk_row ''D'' 2021 9 0 0]
        [mk_row ''B'' 2021 9 0 0, mk_row ''D'' 2021 9 0 0]"
proof -
  have v: "create_top_consumers_chart ranking_table 2021 (Some 3)
             = [mk_row ''B'' 2021 9 0 0, mk_row ''D'' 2021 9 0 0, mk_row ''C'' 2021 7 0 0]"
    by (simp add: create_top_consumers_chart_def nlargest_def year_rows_def ranking_table_def
          mk_row_def)
  have f: "filter (\<lambda>r. year r = 2021) ranking_table
             = [mk_row ''A'' 2021 5 0 0, mk_row ''B'' 2021 9 0 0, mk_row ''C'' 2021 7 0 0,
                mk_row ''D'' 2021 9 0 0]"
    by (simp add: ranking_table_def mk_row_def)
  have p: "primary_energy_consumption (mk_row ''A'' 2021 5 0 0) = 5"
          "primary_energy_consumption (mk_row ''B'' 2021 9 0 0) = 9"
          "primary_energy_consumption (mk_row ''C'' 2021 7 0 0) = 7"
          "primary_energy_consumption (mk_row ''D'' 2021 9 0 0) = 9"
    by (simp_all add: mk_row_def)
  from top_consumers_chart [of ranking_table 2021 "Some 3"]
  have "length (create_top_consumers_chart ranking_table 2021 (Some 3)) = min 3 4
        \<and> prefix (filter (\<lambda>r. primary_energy_consumption r = 9)
                    [mk_row ''B'' 2021 9 0 0, mk_row ''D'' 2021 9 0 0, mk_row ''C'' 2021 7 0 0])
            (filter (\<lambda>r. primary_energy_consumption r = 9)
               [mk_row ''A'' 2021 5 0 0, mk_row ''B'' 2021 9 0 0, mk_row ''C'' 2021 7 0 0,
                mk_row ''D'' 2021 9 0 0])"
    unfolding v f by simp
  then show ?thesis using v p by simp
qed

section \<open>The growth rate\<close>

lemma country_rows_selection:
  "country_rows (filter_selection df selected yr) c
     = sort_key year
         (filter (\<lambda>r. country r = c \<and> c \<in> set selected
                       \<and> fst yr \<le> year r \<and> year r \<le> snd yr) df)"
proof -
  have "filter (\<lambda>r. country r = c) (filter_selection df selected yr)
          = filter (\<lambda>r. country r = c \<and> c \<in> set selected
                          \<and> fst yr \<le> year r \<and> year r \<le> snd yr) df"
    unfolding filter_selection_def filter_filter by (rule filter_cong) auto
  then show ?thesis by (simp add: country_rows_def)
qed

lemma country_growth_defined:
  "2 \<le> length (country_rows fdf c) \<Longrightarrow>
   0 < primary_energy_consumption (hd (country_rows fdf c)) \<Longrightarrow>
   0 \<le> primary_energy_consumption (last (country_rows fdf c)) \<Longrightarrow>
   country_growth fdf c =
     Some (Num (((primary_energy_consumption (last (country_rows fdf c))
                    / primary_energy_consumption (hd (country_rows fdf c)))
                  powr (1 / real (length (country_rows fdf c))) - 1) * 100))"
  by (simp add: country_growth_def Let_def float_root_def percent_growth_def not_less)

lemma country_growth_undefined:
  "\<not> (2 \<le> length (country_rows fdf c)
       \<and> 0 < primary_energy_consumption (hd (country_rows fdf c))) \<Longrightarrow>
   country_growth fdf c = None"
  by (auto simp: country_growth_def Let_def)

lemma country_rows_sorted: "sorted (map year (country_rows fdf c))"
  by (simp add: country_rows_def)

lemma country_rows_subset: "set (country_rows fdf c) \<subseteq> set fdf"
  by (auto simp: country_rows_def)

lemma filter_selection_subset: "set (filter_selection df selected yr) \<subseteq> set df"
  by (auto simp: filter_selection_def)

lemma growth_rates_set:
  "set (growth_rates fdf cs) = {(c, g). c \<in> set cs \<and> country_growth fdf c = Some g}"
  by (induction cs) (auto split: option.splits)

text \<open>Where no consumption is negative, every rate of the ranking is a number.\<close>

lemma country_growth_number:
  assumes "\<forall>r \<in> set fdf. 0 \<le> primary_energy_consumption r"
    and "country_growth fdf c = Some g"
  shows "g \<noteq> NaN"
proof -
  let ?rows = "country_rows fdf c"
  from assms(2) have len: "2 \<le> length ?rows"
    and first: "0 < primary_energy_consumption (hd ?rows)"
    by (auto simp: country_growth_def Let_def split: if_splits)
  from len have "?rows \<noteq> []" by auto
  then have "last ?rows \<in> set fdf" using country_rows_subset [of fdf c] last_in_set by blast
  then have "0 \<le> primary_energy_consumption (last ?rows)" using assms(1) by blast
  with len first assms(2) show ?thesis by (auto simp: country_growth_defined)
qed

lemma growth_rates_numbers:
  assumes "list_all (\<lambda>r. 0 \<le> primary_energy_consumption r) df"
  shows "list_all (\<lambda>x. snd x \<noteq> NaN) (growth_rates (filter_selection df selected yr) selected)"
proof -
  have "\<forall>r \<in> set (filter_selection df selected yr). 0 \<le> primary_energy_consumption r"
    using assms filter_selection_subset [of df selected yr] by (auto simp: list_all_iff)
  then show ?thesis
    unfolding list_all_iff growth_rates_set using country_growth_number by fastforce
qed

lemma max_by_rate_mem: "max_by_rate best xs \<in> set (best # xs)"
  by (induction xs arbitrary: best) (auto split: if_splits)

lemma max_by_rate_ge_best:
  "snd best = Num b \<Longrightarrow> \<forall>x \<in> set xs. snd x \<noteq> NaN \<Longrightarrow>
   \<exists>m. snd (max_by_rate best xs) = Num m \<and> b \<le> m"
proof (induction xs arbitrary: best b)
  case Nil
  then show ?case by simp
next
  case (Cons a xs)
  from Cons.prems(2) obtain v where v: "snd a = Num v" by (cases "snd a") auto
  from Cons.prems(2) have rest: "\<forall>x \<in> set xs. snd x \<noteq> NaN" by simp
  show ?case
  proof (cases "v > b")
    case True
    then have "max_by_rate best (a # xs) = max_by_rate a xs" using v Cons.prems(1) by simp
    moreover from Cons.IH [OF v rest] obtain m where "snd (max_by_rate a xs) = Num m" "v \<le> m"
      by blast
    ultimately show ?thesis using True by force
  next
    case False
    then have "max_by_rate best (a # xs) = max_by_rate best xs" using v Cons.prems(1) by simp
    then show ?thesis using Cons.IH [OF Cons.prems(1) rest] by simp
  qed
qed

lemma max_by_rate_ge:
  "snd best = Num b \<Longrightarrow> \<forall>x \<in> set xs. snd x \<noteq> NaN \<Longrightarrow> x \<in> set (best # xs) \<Longrightarrow>
   \<exists>m v. snd (max_by_rate best xs) = Num m \<and> snd x = Num v \<and> v \<le> m"
proof (induction xs arbitrary: best b)
  case Nil
  then show ?case by simp
next
  case (Cons a xs)
  from Cons.prems(2) obtain v where v: "snd a = Num v" by (cases "snd a") auto
  from Cons.prems(2) have rest: "\<forall>x \<in> set xs. snd x \<noteq> NaN" by simp
  let ?b = "if float_gt (snd a) (snd best) then a else best"
  have step: "max_by_rate best (a # xs) = max_by_rate ?b xs" by simp
  obtain b' where b': "snd ?b = Num b'" "b \<le> b'" "v \<le> b'"
    using v Cons.prems(1) by (cases "v > b") auto
  from max_by_rate_ge_best [OF b'(1) rest]
  obtain m where m: "snd (max_by_rate ?b xs) = Num m" "b' \<le> m" by blast
  from Cons.prems(3) consider "x = best" | "x = a" | "x \<in> set xs" by auto
  then show ?case
  proof cases
    case 1
    then show ?thesis unfolding step using m b' Cons.prems(1) by auto
  next
    case 2
    then show ?thesis unfolding step using m b' v by auto
  next
    case 3
    then have "x \<in> set (?b # xs)" by simp
    from Cons.IH [OF b'(1) rest this] show ?thesis unfolding step by blast
  qed
qed

lemma fastest_growing_None:
  "fastest_growing fdf cs = None \<longleftrightarrow> growth_rates fdf cs = []"
  by (simp add: fastest_growing_def split: list.splits)

lemma fastest_growing_Some:
  assumes "fastest_growing fdf cs = Some w"
    and "list_all (\<lambda>x. snd x \<noteq> NaN) (growth_rates fdf cs)"
  shows "w \<in> set (growth_rates fdf cs)
         \<and> (\<exists>m. snd w = Num m
                \<and> (\<forall>x \<in> set (growth_rates fdf cs). \<exists>v. snd x = Num v \<and> v \<le> m))"
proof (cases "growth_rates fdf cs")
  case Nil
  with assms(1) show ?thesis by (simp add: fastest_growing_def)
next
  case (Cons g gs)
  with assms(1) have w: "w = max_by_rate g gs" by (simp add: fastest_growing_def)
  from assms(2) Cons have rest: "\<forall>x \<in> set gs. snd x \<noteq> NaN" and "snd g \<noteq> NaN"
    by (simp_all add: list_all_iff)
  then obtain b where b: "snd g = Num b" by (cases "snd g") auto
  from max_by_rate_ge_best [OF b rest] obtain m where m: "snd w = Num m" unfolding w by blast
  have "\<forall>x \<in> set (g # gs). \<exists>v. snd x = Num v \<and> v \<le> m"
  proof
    fix x assume "x \<in> set (g # gs)"
    from max_by_rate_ge [OF b rest this] m show "\<exists>v. snd x = Num v \<and> v \<le> m"
      unfolding w by auto
  qed
  then show ?thesis unfolding Cons using m w max_by_rate_mem [of g gs] by blast
qed

lemma two_row_rows:
  "country_rows two_row_series ''X'' = [mk_row ''X'' 2000 100 0 0, mk_row ''X'' 2001 110 0 0]"
  by (simp add: country_rows_def two_row_series_def mk_row_def)

lemma two_row_growth:
  "country_growth two_row_series ''X'' = Some (Num (((110 / 100) powr (1 / 2) - 1) * 100))"
  by (simp add: country_growth_def Let_def two_row_rows float_root_def percent_growth_def)
     (simp add: mk_row_def)

lemma sqrt_11_10_bounds: "1.0488 < sqrt (11 / 10) \<and> sqrt (11 / 10) < 1.0489"
proof -
  have "(1.0488::real)\<^sup>2 < 11 / 10" by (simp add: power2_eq_square)
  then have "sqrt ((1.0488::real)\<^sup>2) < sqrt (11 / 10)" by (simp only: real_sqrt_less_iff)
  then have lo: "1.0488 < sqrt (11 / 10)" by simp
  have "(11 / 10 :: real) < (1.0489)\<^sup>2" by (simp add: power2_eq_square)
  then have "sqrt (11 / 10) < sqrt ((1.0489::real)\<^sup>2)" by (simp only: real_sqrt_less_iff)
  then have hi: "sqrt (11 / 10) < 1.0489" by simp
  show ?thesis using lo hi by simp
qed

lemma two_row_value:
  "4.88 < ((110 / 100) powr (1 / 2) - 1) * (100::real)
   \<and> ((110 / 100) powr (1 / 2) - 1) * (100::real) < 4.89"
proof -
  have "(110 / 100 :: real) powr (1 / 2) = sqrt (11 / 10)" by (simp add: powr_half_sqrt)
  then show ?thesis using sqrt_11_10_bounds by simp
qed

text \<open>
  Claim C4, as the code has it. A country's rows are the rows of the table of that
  country, if it is selected, with a year in the selected range, in ascending order of
  year. If there are at least two, the first consumption is positive and the last is not
  negative, its growth rate is \<open>((last / first) powr (1 / count) - 1) * 100\<close> with
  \<open>count\<close> the number of rows. With fewer than two rows or a first consumption that is
  not positive it has no rate and is left out of the ranking. The ranking holds exactly
  the selected countries with a rate. Where every rate of the ranking is a number, as it
  is when no consumption is negative, the fastest growing is one of the ranking whose
  rate no other exceeds. For the series \<open>[(2000, 100), (2001, 110)]\<close> the rate is
  \<open>((110 / 100) powr (1 / 2) - 1) * 100\<close>, between 4.88 and 4.89.
\<close>

theorem growth_rate_ranking:
  fixes df :: table and selected :: "string list" and yr :: "int \<times> int" and c :: string
  defines "fdf \<equiv> filter_selection df selected yr"
  defines "rows \<equiv> country_rows fdf c"
  shows "rows = sort_key year
                  (filter (\<lambda>r. country r = c \<and> c \<in> set selected
                                \<and> fst yr \<le> year r \<and> year r \<le> snd yr) df)
         \<and> sorted (map year rows)
         \<and> (2 \<le> length rows \<and> 0 < primary_energy_consumption (hd rows)
              \<and> 0 \<le> primary_energy_consumption (last rows) \<longrightarrow>
              country_growth fdf c =
                Some (Num (((primary_energy_consumption (last rows)
                               / primary_energy_consumption (hd rows))
                             powr (1 / real (length rows)) - 1) * 100)))
         \<and> (\<not> (2 \<le> length rows \<and> 0 < primary_energy_consumption (hd rows)) \<longrightarrow>
              country_growth fdf c = None)
         \<and> set (growth_rates fdf selected)
             = {(c', g). c' \<in> set selected \<and> country_growth fdf c' = Some g}
         \<and> (fastest_growing fdf selected = None \<longleftrightarrow> growth_rates fdf selected = [])
         \<and> (list_all (\<lambda>r. 0 \<le> primary_energy_consumption r) df \<longrightarrow>
              list_all (\<lambda>x. snd x \<noteq> NaN) (growth_rates fdf selected))
         \<and> (list_all (\<lambda>x. snd x \<noteq> NaN) (growth_rates fdf selected) \<longrightarrow>
              (\<forall>w. fastest_growing fdf selected = Some w \<longrightarrow>
                 w \<in> set (growth_rates fdf selected)
                 \<and> (\<exists>m. snd w = Num m
                        \<and> (\<forall>x \<in> set (growth_rates fdf selected).
                              \<exists>v. snd x = Num v \<and> v \<le> m))))
         \<and> country_growth two_row_series ''X''
             = Some (Num (((110 / 100) powr (1 / 2) - 1) * 100))
         \<and> 4.88 < ((110 / 100) powr (1 / 2) - 1) * (100::real)
         \<and> ((110 / 100) powr (1 / 2) - 1) * (100::real) < 4.89"
proof -
  have 1: "rows = sort_key year
                  (filter (\<lambda>r. country r = c \<and> c \<in> set selected
                                \<and> fst yr \<le> year r \<and> year r \<le> snd yr) df)"
    unfolding rows_def fdf_def by (rule country_rows_selection)
  have 2: "sorted (map year rows)" unfolding rows_def by (rule country_rows_sorted)
  have 3: "2 \<le> length rows \<and> 0 < primary_energy_consumption (hd rows)
              \<and> 0 \<le> primary_energy_consumption (last rows) \<longrightarrow>
              country_growth fdf c =
                Some (Num (((primary_energy_consumption (last rows)
                               / primary_energy_consumption (hd rows))
                             powr (1 / real (length rows)) - 1) * 100))"
    unfolding rows_def using country_growth_defined [of fdf c] by blast
  have 4: "\<not> (2 \<le> length rows \<and> 0 < primary_energy_consumption (hd rows)) \<longrightarrow>
              country_growth fdf c = None"
    unfolding rows_def using country_growth_undefined [of fdf c] by blast
  have 5: "set (growth_rates fdf selected)
             = {(c', g). c' \<in> set selected \<and> country_growth fdf c' = Some g}"
    by (rule growth_rates_set)
  have 6: "fastest_growing fdf selected = None \<longleftrightarrow> growth_rates fdf selected = []"
    by (rule fastest_growing_None)
  have 7: "list_all (\<lambda>r. 0 \<le> primary_energy_consumption r) df \<longrightarrow>
              list_all (\<lambda>x. snd x \<noteq> NaN) (growth_rates fdf selected)"
    unfolding fdf_def using growth_rates_numbers [of df selected yr] by blast
  have 8: "list_all (\<lambda>x. snd x \<noteq> NaN) (growth_rates fdf selected) \<longrightarrow>
              (\<forall>w. fastest_growing fdf selected = Some w \<longrightarrow>
                 w \<in> set (growth_rates fdf selected)
                 \<and> (\<exists>m. snd w = Num m
                        \<and> (\<forall>x \<in> set (growth_rates fdf selected).
                              \<exists>v. snd x = Num v \<and> v \<le> m)))"
    using fastest_growing_Some [of fdf selected] by blast
  note 9 = two_row_growth
  note 10 = two_row_value
  show ?thesis
    apply (intro conjI)
    using 1 2 3 4 5 6 7 8 9 10 by blast+
qed

lemma sqrt2_not_less_1: "\<not> (2::real) powr (1 / 2) < 1"
  by (simp add: powr_half_sqrt)

lemma scenario_rows_A:
  "country_rows (filter_selection growth_scenario [''A'', ''B''] (2020, 2021)) ''A''
     = [mk_row ''A'' 2020 100 0 0, mk_row ''A'' 2021 200 0 0]"
  by (simp add: country_rows_def filter_selection_def growth_scenario_def mk_row_def)

lemma scenario_rows_B:
  "country_rows (filter_selection growth_scenario [''A'', ''B''] (2020, 2021)) ''B''
     = [mk_row ''B'' 2020 50 0 0, mk_row ''B'' 2021 50 0 0]"
  by (simp add: country_rows_def filter_selection_def growth_scenario_def mk_row_def)

lemma scenario_growth_B:
  "country_growth (filter_selection growth_scenario [''A'', ''B''] (2020, 2021)) ''B''
     = Some (Num 0)"
  by (simp add: country_growth_def Let_def scenario_rows_B float_root_def percent_growth_def)
     (simp add: mk_row_def)

text \<open>
  The scenario of the specification, among rows that the selection removes: country A
  goes from 100 to 200 over the two selected years, country B stays at 50, and A is the
  fastest growing.
\<close>

theorem growth_rate_ranking_witness:
  "list_all (\<lambda>r. 0 \<le> primary_energy_consumption r) growth_scenario
   \<and> country_rows (filter_selection growth_scenario [''A'', ''B''] (2020, 2021)) ''A''
       = [mk_row ''A'' 2020 100 0 0, mk_row ''A'' 2021 200 0 0]
   \<and> country_growth (filter_selection growth_scenario [''A'', ''B''] (2020, 2021)) ''A''
       = Some (Num ((2 powr (1 / 2) - 1) * 100))
   \<and> fastest_growing (filter_selection growth_scenario [''A'', ''B''] (2020, 2021))
        [''A'', ''B'']
       = Some (''A'', Num ((2 powr (1 / 2) - 1) * 100))"
proof -
  let ?fdf = "filter_selection growth_scenario [''A'', ''B''] (2020, 2021)"
  have n: "list_all (\<lambda>r. 0 \<le> primary_energy_consumption r) growth_scenario"
    by (simp add: growth_scenario_def mk_row_def)
  have p: "primary_energy_consumption (mk_row ''A'' 2020 100 0 0) = 100"
          "primary_energy_consumption (mk_row ''A'' 2021 200 0 0) = 200"
    by (simp_all add: mk_row_def)
  from growth_rate_ranking [of growth_scenario "[''A'', ''B'']" "(2020, 2021)" "''A''"]
  have g: "country_growth ?fdf ''A'' = Some (Num ((2 powr (1 / 2) - 1) * 100))"
    unfolding scenario_rows_A by (simp add: p)
  have gr: "growth_rates ?fdf [''A'', ''B'']
              = [(''A'', Num ((2 powr (1 / 2) - 1) * 100)), (''B'', Num 0)]"
    by (simp only: growth_rates.simps g scenario_growth_B option.case)
  have f: "fastest_growing ?fdf [''A'', ''B'']
             = Some (''A'', Num ((2 powr (1 / 2) - 1) * 100))"
    unfolding fastest_growing_def gr by (simp add: sqrt2_not_less_1)
  show ?thesis using n g f scenario_rows_A by (intro conjI)
qed

text \<open>
  Country A goes from 100 to a negative value: it has two rows and a positive first
  consumption, yet its rate is not a number, and it is named the fastest growing ahead of
  B, whose rate is the number 0.
\<close>

theorem growth_rate_negative_last:
  "length (country_rows (filter_selection negative_last_scenario [''A'', ''B''] (2020, 2021))
             ''A'') = 2
   \<and> primary_energy_consumption
       (hd (country_rows (filter_selection negative_last_scenario [''A'', ''B''] (2020, 2021))
              ''A'')) = 100
   \<and> country_growth (filter_selection negative_last_scenario [''A'', ''B''] (2020, 2021)) ''A''
       = Some NaN
   \<and> country_growth (filter_selection negative_last_scenario [''A'', ''B''] (2020, 2021)) ''B''
       = Some (Num 0)
   \<and> fastest_growing (filter_selection negative_last_scenario [''A'', ''B''] (2020, 2021))
        [''A'', ''B'']
       = Some (''A'', NaN)"
proof -
  let ?fdf = "filter_selection negative_last_scenario [''A'', ''B''] (2020, 2021)"
  have ra: "country_rows ?fdf ''A'' = [mk_row ''A'' 2020 100 0 0, mk_row ''A'' 2021 (- 50) 0 0]"
    by (simp add: country_rows_def filter_selection_def negative_last_scenario_def mk_row_def)
  have rb: "country_rows ?fdf ''B'' = [mk_row ''B'' 2020 50 0 0, mk_row ''B'' 2021 50 0 0]"
    by (simp add: country_rows_def filter_selection_def negative_last_scenario_def mk_row_def)
  have ga: "country_growth ?fdf ''A'' = Some NaN"
    by (simp add: country_growth_def Let_def ra float_root_def percent_growth_def)
       (simp add: mk_row_def)
  have gb: "country_growth ?fdf ''B'' = Some (Num 0)"
    by (simp add: country_growth_def Let_def rb float_root_def percent_growth_def)
       (simp add: mk_row_def)
  have gr: "growth_rates ?fdf [''A'', ''B''] = [(''A'', NaN), (''B'', Num 0)]"
    by (simp only: growth_rates.simps ga gb option.case)
  have f: "fastest_growing ?fdf [''A'', ''B''] = Some (''A'', NaN)"
    unfolding fastest_growing_def gr by simp
  have h: "primary_energy_consumption (hd (country_rows ?fdf ''A'')) = 100"
    unfolding ra by (simp add: mk_row_def)
  show ?thesis using ga gb f h by (simp add: ra)
qed

section \<open>The synthetic generator\<close>

lemma sample_row_country: "country (fst (sample_row g c b gr i y s)) = c"
  by (simp add: sample_row_def Let_def case_prod_beta)

lemma sample_row_year: "year (fst (sample_row g c b gr i y s)) = y"
  by (simp add: sample_row_def Let_def case_prod_beta)

lemma sample_row_nonneg: "row_nonneg (fst (sample_row g c b gr i y s))"
  by (simp add: sample_row_def Let_def case_prod_beta row_nonneg_def source_cols_def cell_def)

lemma sample_row_electricity:
  "0 \<le> cell (electricity_generation (fst (sample_row g c b gr i y s)))"
  by (simp add: sample_row_def Let_def case_prod_beta cell_def)

lemma sample_years_keys:
  "map (\<lambda>r. (country r, year r)) (fst (sample_years g c b gr iys s)) = map (\<lambda>iy. (c, snd iy)) iys"
proof (induction iys arbitrary: s)
  case Nil
  show ?case by simp
next
  case (Cons iy iys)
  obtain i y where iy: "iy = (i, y)" by (cases iy)
  show ?case
    using Cons [of "snd (sample_row g c b gr i y s)"]
    by (simp add: iy case_prod_beta Let_def sample_row_country sample_row_year)
qed

lemma sample_years_all:
  "list_all (\<lambda>r. row_nonneg r \<and> 0 \<le> cell (electricity_generation r))
     (fst (sample_years g c b gr iys s))"
proof (induction iys arbitrary: s)
  case Nil
  show ?case by simp
next
  case (Cons iy iys)
  obtain i y where iy: "iy = (i, y)" by (cases iy)
  show ?case
    using Cons [of "snd (sample_row g c b gr i y s)"]
    by (simp add: iy case_prod_beta Let_def sample_row_nonneg sample_row_electricity)
qed

lemma enumerate_keys: "map (\<lambda>iy. (c, snd iy)) (enumerate n xs) = map (Pair c) xs"
  by (induction xs arbitrary: n) simp_all

lemma sample_countries_keys:
  "map (\<lambda>r. (country r, year r)) (fst (sample_countries g cs s)) = List.product cs years"
proof (induction cs arbitrary: s)
  case Nil
  show ?case by simp
next
  case (Cons c cs)
  have e: "map (\<lambda>iy. (c, snd iy)) (enumerate 0 years) = map (Pair c) years"
    by (rule enumerate_keys)
  show ?case
    by (simp add: case_prod_beta Let_def sample_years_keys e Cons)
qed

lemma sample_countries_all:
  "list_all (\<lambda>r. row_nonneg r \<and> 0 \<le> cell (electricity_generation r))
     (fst (sample_countries g cs s))"
proof (induction cs arbitrary: s)
  case Nil
  show ?case by simp
next
  case (Cons c cs)
  show ?case
    by (simp add: case_prod_beta Let_def sample_years_all Cons)
qed

lemma countries_length: "length countries = 10"
  by (simp add: countries_def)

lemma countries_distinct: "distinct countries"
  by (simp add: countries_def)

lemma years_length: "length years = 23"
  by (simp add: years_def)

lemma create_sample_data_keys:
  "map (\<lambda>r. (country r, year r)) (fst (create_sample_data g s)) = List.product countries years"
  by (simp add: create_sample_data_def sample_countries_keys)

lemma create_sample_data_length: "length (fst (create_sample_data g s)) = 230"
proof -
  have "length (map (\<lambda>r. (country r, year r)) (fst (create_sample_data g s))) = 10 * 23"
    unfolding create_sample_data_keys by (simp add: countries_length years_length)
  then show ?thesis by simp
qed

text \<open>
  Claim C8. The synthetic generator reseeds the global generator with 42 before it draws,
  so its table does not depend on the state it is run in: two runs, in whatever states and
  in particular one right after the other, produce the same table. The table has one row
  for each of the 10 fixed countries and each of the 23 years 2000 to 2022, in that order,
  and each of its energy-consumption fields is non-negative.
\<close>

theorem create_sample_data_repeatable:
  fixes g :: "'s rng" and s1 s2 :: 's
  defines "t \<equiv> fst (create_sample_data g s1)"
  shows "fst (create_sample_data g s2) = t
         \<and> fst (create_sample_data g (snd (create_sample_data g s1))) = t
         \<and> map (\<lambda>r. (country r, year r)) t = List.product countries years
         \<and> length countries = 10 \<and> distinct countries
         \<and> years = [2000..2022] \<and> length years = 23 \<and> length t = 230
         \<and> list_all row_nonneg t
         \<and> list_all (\<lambda>r. 0 \<le> cell (electricity_generation r)) t"
proof -
  have 1: "fst (create_sample_data g s2) = t" by (simp add: t_def create_sample_data_def)
  have 2: "fst (create_sample_data g (snd (create_sample_data g s1))) = t"
    by (simp add: t_def create_sample_data_def)
  have 3: "map (\<lambda>r. (country r, year r)) t = List.product countries years"
    unfolding t_def by (rule create_sample_data_keys)
  have 4: "length t = 230" unfolding t_def by (rule create_sample_data_length)
  have "list_all (\<lambda>r. row_nonneg r \<and> 0 \<le> cell (electricity_generation r)) t"
    unfolding t_def create_sample_data_def by (rule sample_countries_all)
  then have 5: "list_all row_nonneg t" and 6: "list_all (\<lambda>r. 0 \<le> cell (electricity_generation r)) t"
    by (simp_all add: list_all_iff)
  show ?thesis
    using 1 2 3 4 5 6 countries_length countries_distinct years_length
    by (simp add: years_def)
qed

section \<open>Loading failures\<close>

lemma main_df_parse_error:
  "main_df g (OtherException e) s =
     (([Error (''Error loading data: '' @ e), Info ''Using sample data for demonstration.''],
       fst (create_sample_data g s)), snd (create_sample_data g s))"
  by (simp add: main_df_def load_energy_data_def case_prod_beta)

lemma main_df_not_found:
  "main_df g FileNotFoundError s =
     (([Error ''Dataset not found! Please download World Energy Consumption.csv'',
        Markdown ''How to get the dataset'', Info ''Using sample data for demonstration.''],
       fst (create_sample_data g s)), snd (create_sample_data g s))"
  by (simp add: main_df_def load_energy_data_def case_prod_beta)

lemma main_charts_page:
  "selected_countries sel \<noteq> [] \<Longrightarrow> snd (main_charts df sel) \<noteq> None"
  by (simp add: main_charts_def Let_def)

lemma main_unfold:
  "fst (main g outcome sel s) =
     (fst (fst (main_df g outcome s)) @ fst (main_charts (snd (fst (main_df g outcome s))) sel),
      snd (fst (main_df g outcome s)),
      snd (main_charts (snd (fst (main_df g outcome s))) sel))"
  by (simp add: main_def case_prod_beta)

text \<open>
  Claim C3, as the code has it. When loading fails with anything but a missing file, the
  page shows the error message and then does what it does for a missing file: it
  announces sample data, works on the synthetic table, and, with a country selected,
  draws the charts from it.
\<close>

theorem main_parse_error_recovery:
  "fst (snd (fst (main g (OtherException e) sel s))) = fst (create_sample_data g s)
   \<and> fst (snd (fst (main g FileNotFoundError sel s))) = fst (create_sample_data g s)
   \<and> fst (fst (main g (OtherException e) sel s))
       = [Error (''Error loading data: '' @ e), Info ''Using sample data for demonstration.'']
           @ fst (main_charts (fst (create_sample_data g s)) sel)
   \<and> snd (snd (fst (main g (OtherException e) sel s)))
       = snd (main_charts (fst (create_sample_data g s)) sel)
   \<and> (selected_countries sel \<noteq> [] \<longrightarrow>
        snd (snd (fst (main g (OtherException e) sel s))) \<noteq> None)"
  by (simp add: main_unfold main_df_parse_error main_df_not_found main_charts_page)

theorem main_parse_error_recovery_witness:
  "selected_countries example_selections = [''China'']
   \<and> take 2 (fst (fst (main half_rng (OtherException ''bad header'') example_selections 0)))
       = [Error ''Error loading data: bad header'', Info ''Using sample data for demonstration.'']
   \<and> snd (snd (fst (main half_rng (OtherException ''bad header'') example_selections 0)))
       \<noteq> None"
proof -
  have h: "selected_countries example_selections = [''China'']"
    by (simp add: example_selections_def)
  then have h': "selected_countries example_selections \<noteq> []" by simp
  from main_parse_error_recovery [of half_rng "''bad header''" example_selections 0] h'
  have msgs: "fst (fst (main half_rng (OtherException ''bad header'') example_selections 0))
                = [Error (''Error loading data: '' @ ''bad header''),
                   Info ''Using sample data for demonstration.'']
                  @ fst (main_charts (fst (create_sample_data half_rng 0)) example_selections)"
    and page: "snd (snd (fst (main half_rng (OtherException ''bad header'')
                 example_selections 0))) \<noteq> None"
    by blast+
  have msgs':
    "take 2 (fst (fst (main half_rng (OtherException ''bad header'') example_selections 0)))
       = [Error ''Error loading data: bad header'', Info ''Using sample data for demonstration.'']"
    unfolding msgs by simp
  show ?thesis using h msgs' page by (intro conjI)
qed

text \<open>
  A malformed file, with one country selected: the table of the page is the synthetic
  one, it has its 230 rows, and the charts are drawn.
\<close>

theorem main_parse_error_uses_sample:
  "fst (snd (fst (main half_rng (OtherException ''bad header'') example_selections 0)))
     = fst (create_sample_data half_rng 0)
   \<and> length (fst (snd (fst (main half_rng (OtherException ''bad header'') example_selections 0))))
       = 230
   \<and> snd (snd (fst (main half_rng (OtherException ''bad header'') example_selections 0)))
       \<noteq> None"
proof -
  have h: "selected_countries example_selections \<noteq> []"
    by (simp add: example_selections_def)
  show ?thesis
    by (simp add: main_unfold main_df_parse_error main_charts_page [OF h]
          create_sample_data_length)
qed

section \<open>What the derivation functions leave unchanged\<close>

lemma df_assign_beyond: "n \<le> a \<Longrightarrow> take n (df_assign f a st) = take n st"
  by (simp add: df_assign_def)

lemma df_assign_at: "a < length st \<Longrightarrow> df_assign f a st ! a = map f (st ! a)"
  by (simp add: df_assign_def)

lemma metrics_st_store:
  "snd (calculate_energy_metrics_st df st)
     = st @ [filter (\<lambda>r. Some (year r) = latest_year (st ! df)) (st ! df)]"
  by (simp add: calculate_energy_metrics_st_def df_mask_def new_frame_def Let_def)

lemma latest_data_filter:
  "latest_data t = filter (\<lambda>r. Some (year r) = latest_year t) t"
  by (cases "latest_year t") (auto simp: latest_data_def intro: filter_cong)

lemma metrics_st_value:
  "fst (calculate_energy_metrics_st df st) = calculate_energy_metrics (st ! df)"
  by (simp add: calculate_energy_metrics_st_def df_mask_def new_frame_def Let_def
        calculate_energy_metrics_def latest_data_filter [symmetric])

lemma trends_st_store:
  "snd (create_consumption_trends_st df selected st)
     = st @ [filter (\<lambda>r. country r \<in> set selected) (st ! df)]"
  by (simp add: create_consumption_trends_st_def df_mask_def new_frame_def)

lemma trends_st_value:
  "fst (create_consumption_trends_st df selected st)
     = create_consumption_trends (st ! df) selected"
  by (simp add: create_consumption_trends_st_def df_mask_def new_frame_def
        create_consumption_trends_def)

lemma mix_st_store:
  "snd (create_energy_mix_chart_st df c y st) = st @ [mix_rows (st ! df) c y]"
  by (simp add: create_energy_mix_chart_st_def df_mask_def new_frame_def mix_rows_def)

lemma mix_st_value:
  "fst (create_energy_mix_chart_st df c y st) = create_energy_mix_chart (st ! df) c y"
  by (simp add: create_energy_mix_chart_st_def df_mask_def new_frame_def mix_rows_def
        create_energy_mix_chart_def)

lemma top_st_store:
  "snd (create_top_consumers_chart_st df y top_n st)
     = st @ [year_rows (st ! df) y, create_top_consumers_chart (st ! df) y top_n]"
  by (simp add: create_top_consumers_chart_st_def df_mask_def df_nlargest_def new_frame_def
        year_rows_def create_top_consumers_chart_def)

lemma top_st_value:
  "fst (create_top_consumers_chart_st df y top_n st)
     = create_top_consumers_chart (st ! df) y top_n"
  by (simp add: create_top_consumers_chart_st_def df_mask_def df_nlargest_def new_frame_def
        year_rows_def create_top_consumers_chart_def nth_append)

lemma growth_st_store:
  "snd (create_renewable_growth_chart_st df selected st)
     = st @ [filter (\<lambda>r. country r \<in> set selected) (st ! df),
             create_renewable_growth_chart (st ! df) selected]"
  by (simp add: create_renewable_growth_chart_st_def df_mask_def df_copy_def new_frame_def
        df_assign_def renewable_cols_def create_renewable_growth_chart_def Let_def
        nth_append list_update_append)

lemma growth_st_value:
  "fst (create_renewable_growth_chart_st df selected st)
     = create_renewable_growth_chart (st ! df) selected"
  by (simp add: create_renewable_growth_chart_st_def df_mask_def df_copy_def new_frame_def
        df_assign_def renewable_cols_def create_renewable_growth_chart_def Let_def
        nth_append list_update_append)

lemma growth_chart_has_column:
  "list_all (\<lambda>r. total_renewable r = Some (row_renewable r))
     (create_renewable_growth_chart t selected)"
  by (simp add: create_renewable_growth_chart_def renewable_cols_def add_renewable_def
        row_renewable_def cell_def list_all_iff)

text \<open>
  Claim C9. Each derivation function (metrics, trend filter, energy mix, top-N, renewable
  growth) leaves the table it is given as it was: every frame that existed before the call
  is the same after it, the loaded table at \<open>df\<close> among them. The functions work on frames
  they build themselves; the renewable-growth function writes its \<open>total_renewable\<close>
  column into the copy it made, which is a frame other than \<open>df\<close>.
\<close>

theorem derivations_leave_table_unchanged:
  assumes "df < length st"
  shows "take (length st) (snd (calculate_energy_metrics_st df st)) = st
         \<and> snd (calculate_energy_metrics_st df st) ! df = st ! df
         \<and> take (length st) (snd (create_consumption_trends_st df selected st)) = st
         \<and> snd (create_consumption_trends_st df selected st) ! df = st ! df
         \<and> take (length st) (snd (create_energy_mix_chart_st df c y st)) = st
         \<and> snd (create_energy_mix_chart_st df c y st) ! df = st ! df
         \<and> take (length st) (snd (create_top_consumers_chart_st df y top_n st)) = st
         \<and> snd (create_top_consumers_chart_st df y top_n st) ! df = st ! df
         \<and> take (length st) (snd (create_renewable_growth_chart_st df selected st)) = st
         \<and> snd (create_renewable_growth_chart_st df selected st) ! df = st ! df
         \<and> snd (create_renewable_growth_chart_st df selected st) ! Suc (length st)
             = fst (create_renewable_growth_chart_st df selected st)
         \<and> fst (create_renewable_growth_chart_st df selected st)
             = create_renewable_growth_chart (st ! df) selected
         \<and> list_all (\<lambda>r. total_renewable r = Some (row_renewable r))
              (fst (create_renewable_growth_chart_st df selected st))"
  using assms
  by (simp add: metrics_st_store trends_st_store mix_st_store top_st_store growth_st_store
        growth_st_value growth_chart_has_column nth_append)

theorem derivations_leave_table_unchanged_witness:
  "(0::nat) < length [example_table]
   \<and> snd (calculate_energy_metrics_st 0 [example_table]) ! 0 = example_table
   \<and> snd (create_consumption_trends_st 0 [''A''] [example_table]) ! 0 = example_table
   \<and> snd (create_energy_mix_chart_st 0 ''A'' 2021 [example_table]) ! 0 = example_table
   \<and> snd (create_top_consumers_chart_st 0 2021 None [example_table]) ! 0 = example_table
   \<and> snd (create_renewable_growth_chart_st 0 [''A''] [example_table]) ! 0 = example_table
   \<and> take 1 (snd (create_renewable_growth_chart_st 0 [''A''] [example_table]))
       = [example_table]"
proof -
  have h: "(0::nat) < length [example_table]" by simp
  show ?thesis
    using derivations_leave_table_unchanged [OF h, of "[''A'']" "''A''" 2021 None]
    by simp
qed

end
